theory Spec2Isabelle
  imports Main "HOL-Library.Word" "HOL-Library.Sublist"
begin

section \<open>metassert.h: expression capture and the METASSERT statement\<close>

text \<open>
  The header is a set of templates over the operand types \<open>Lhs\<close> and \<open>Rhs\<close>, and it
  writes to streams of the iostream library, which is not part of it. The development
  has two parts, and both cover expressions with one binary operator, the form the
  macro is documented for.

  The first part is the header at the built-in type \<open>int\<close> of its own example
  (\<open>int a = rand(); int b = rand(); METASSERT(a == b);\<close>), a 32-bit two's complement
  integer, in a program that has left the streams as the library creates them: no error
  flag set, decimal base, no field width, the classic locale. There a stream is the
  characters inserted into it so far. The line number is the \<open>unsigned\<close> parameter of
  \<open>AssertFail\<close>, 32 bits wide as well.

  The second part is the header for any operand types and any state of the streams;
  the first part is its instance at \<open>int\<close> in the initial state of the streams.

  A C string is modelled by its characters before the terminating zero. A reference is
  modelled by the value it refers to: the lifetime of the objects behind the references
  is not modelled. In particular the builder that \<open>operator##op\<close> returns refers to the
  local \<open>expr\<close> of that function, and \<open>METASSERT\<close> copies the expression from it after
  the function has returned; the development takes the copy to be the expression.
\<close>

subsection \<open>Built-in operations on \<open>int\<close>\<close>

type_synonym cint = "32 word"
type_synonym cunsigned = "32 word"

text \<open>
  What can go wrong while the statement is compiled and run: no \<open>operator op\<close> on an
  \<open>ExpressionBuilder\<close> is declared for the token (the program is rejected), and the two
  undefined behaviours of the built-in arithmetic on \<open>int\<close>.
\<close>

datatype fault = NoSuchOperator | DivideByZero | SignedOverflow

text \<open>\<open>decltype(a op b)\<close> for two \<open>int\<close> operands: \<open>int\<close> or \<open>bool\<close>.\<close>

datatype val = IntVal cint | BoolVal bool

definition INT_MIN :: int where
  "INT_MIN = - (2 ^ 31)"

definition INT_MAX :: int where
  "INT_MAX = 2 ^ 31 - 1"

text \<open>An arithmetic result that \<open>int\<close> cannot represent is undefined behaviour.\<close>

definition int_result :: "int \<Rightarrow> fault + val" where
  "int_result r = (if INT_MIN \<le> r \<and> r \<le> INT_MAX then Inr (IntVal (word_of_int r)) else Inl SignedOverflow)"

text \<open>The quotient of C++ integer division: the fraction is discarded.\<close>

definition c_quotient :: "int \<Rightarrow> int \<Rightarrow> int" where
  "c_quotient x y = sgn x * sgn y * (\<bar>x\<bar> div \<bar>y\<bar>)"

definition int_add :: "cint \<Rightarrow> cint \<Rightarrow> fault + val" where
  "int_add a b = int_result (sint a + sint b)"

definition int_sub :: "cint \<Rightarrow> cint \<Rightarrow> fault + val" where
  "int_sub a b = int_result (sint a - sint b)"

definition int_mul :: "cint \<Rightarrow> cint \<Rightarrow> fault + val" where
  "int_mul a b = int_result (sint a * sint b)"

definition int_div :: "cint \<Rightarrow> cint \<Rightarrow> fault + val" where
  "int_div a b = (if sint b = 0 then Inl DivideByZero else int_result (c_quotient (sint a) (sint b)))"

text \<open>The conversion to \<open>bool\<close> that the operand of \<open>!\<close> and of \<open>if\<close> undergoes.\<close>

fun to_bool :: "val \<Rightarrow> bool" where
  "to_bool (IntVal i) = (i \<noteq> 0)"
| "to_bool (BoolVal b) = b"

subsection \<open>Stream insertion of the built-in types\<close>

definition dquote :: char where
  "dquote = CHR 0x22"

definition newline :: char where
  "newline = CHR 0x0A"

definition digit :: "nat \<Rightarrow> char" where
  "digit d = ''0123456789'' ! d"

function decimal :: "nat \<Rightarrow> string" where
  "decimal n = (if n < 10 then [digit n] else decimal (n div 10) @ [digit (n mod 10)])"
  by pat_completeness auto
termination
  by (relation "measure id") auto

declare decimal.simps [simp del]

text \<open>\<open>os << unsigned\<close>\<close>

definition show_unsigned :: "cunsigned \<Rightarrow> string" where
  "show_unsigned u = decimal (unat u)"

text \<open>\<open>os << int\<close>\<close>

definition show_int :: "cint \<Rightarrow> string" where
  "show_int i = (if sint i < 0 then CHR ''-'' # decimal (nat (- sint i)) else decimal (nat (sint i)))"

subsection \<open>DEFINE\_OPERATOR\<close>

text \<open>The functor templates \<open>name\<close>, one for each use of the macro.\<close>

datatype opname =
  Add | Subtract | Multiply | Divide | Equal | NotEqual
  | LessThan | LessOrEqual | GreaterThan | GreaterOrEqual

text \<open>\<open>name::operator()(a, b)\<close>: \<open>return a op b;\<close>\<close>

fun functor_call :: "opname \<Rightarrow> cint \<Rightarrow> cint \<Rightarrow> fault + val" where
  "functor_call Add a b = int_add a b"
| "functor_call Subtract a b = int_sub a b"
| "functor_call Multiply a b = int_mul a b"
| "functor_call Divide a b = int_div a b"
| "functor_call Equal a b = Inr (BoolVal (a = b))"
| "functor_call NotEqual a b = Inr (BoolVal (a \<noteq> b))"
| "functor_call LessThan a b = Inr (BoolVal (sint a < sint b))"
| "functor_call LessOrEqual a b = Inr (BoolVal (sint a \<le> sint b))"
| "functor_call GreaterThan a b = Inr (BoolVal (sint a > sint b))"
| "functor_call GreaterOrEqual a b = Inr (BoolVal (sint a \<ge> sint b))"

text \<open>\<open>operator<<(os, name)\<close>: \<open>os << #op;\<close>\<close>

fun functor_write :: "string \<Rightarrow> opname \<Rightarrow> string" where
  "functor_write os Add = os @ ''+''"
| "functor_write os Subtract = os @ ''-''"
| "functor_write os Multiply = os @ ''*''"
| "functor_write os Divide = os @ ''/''"
| "functor_write os Equal = os @ ''==''"
| "functor_write os NotEqual = os @ ''!=''"
| "functor_write os LessThan = os @ ''<''"
| "functor_write os LessOrEqual = os @ ''<=''"
| "functor_write os GreaterThan = os @ ''>''"
| "functor_write os GreaterOrEqual = os @ ''>=''"

subsection \<open>Expression and ExpressionBuilder\<close>

record Expression =
  m_lhs :: cint
  m_rhs :: cint
  m_op :: opname

datatype 'l ExpressionBuilder = ExpressionBuilder (GetExpression: 'l)

datatype Build = Build

text \<open>\<open>operator->*(Build&, const Lhs& lhs)\<close>\<close>

definition arrow_star :: "Build \<Rightarrow> 'l \<Rightarrow> 'l ExpressionBuilder" where
  "arrow_star build lhs = ExpressionBuilder lhs"

text \<open>
  The body that every \<open>operator##op (ExpressionBuilder<Lhs>& builder, const Rhs& rhs)\<close>
  shares, for the functor \<open>name\<close> of its use of the macro.
\<close>

definition builder_operator :: "opname \<Rightarrow> cint ExpressionBuilder \<Rightarrow> cint \<Rightarrow> Expression ExpressionBuilder" where
  "builder_operator name builder rhs =
     (let expr = \<lparr>m_lhs = GetExpression builder, m_rhs = rhs, m_op = name\<rparr>
      in ExpressionBuilder expr)"

text \<open>
  The ten uses of the macro: the operator token \<open>op\<close> and the functor \<open>name\<close>. Overload
  resolution finds the \<open>operator##op\<close> of a token in this table, or nothing.
\<close>

definition operators :: "(string \<times> opname) list" where
  "operators =
     [(''+'', Add), (''-'', Subtract), (''*'', Multiply), (''/'', Divide),
      (''=='', Equal), (''!='', NotEqual), (''<'', LessThan), (''<='', LessOrEqual),
      (''>'', GreaterThan), (''>='', GreaterOrEqual)]"

definition operator_overload :: "string \<Rightarrow> (cint ExpressionBuilder \<Rightarrow> cint \<Rightarrow> Expression ExpressionBuilder) option" where
  "operator_overload tok = map_option builder_operator (map_of operators tok)"

subsection \<open>The program state\<close>

text \<open>
  \<open>cout\<close> holds the characters written to standard output so far. \<open>op_calls\<close> is a
  ghost counter, not a variable of the program: it counts the calls of a functor's
  \<open>operator()\<close>. Everything else the program owns is the extension of the record.
\<close>

record world =
  cout :: string
  op_calls :: nat

text \<open>\<open>Expression::operator ResultType() const\<close>: \<open>return m_op(m_lhs, m_rhs);\<close>\<close>

definition Expression_result :: "Expression \<Rightarrow> 'a world_scheme \<Rightarrow> fault + (val \<times> 'a world_scheme)" where
  "Expression_result e w =
     (case functor_call (m_op e) (m_lhs e) (m_rhs e) of
        Inl f \<Rightarrow> Inl f
      | Inr v \<Rightarrow> Inr (v, w\<lparr>op_calls := Suc (op_calls w)\<rparr>))"

text \<open>
  \<open>operator<<(std::ostream& stream, const Expression& expr)\<close>:
  \<open>stream << expr.m_lhs << " " << expr.m_op << " " << expr.m_rhs;\<close>
\<close>

definition Expression_write :: "string \<Rightarrow> Expression \<Rightarrow> string" where
  "Expression_write stream expr =
     functor_write ((stream @ show_int (m_lhs expr)) @ '' '') (m_op expr) @ '' '' @ show_int (m_rhs expr)"

text \<open>
  \<open>AssertFail(msg, file, line)\<close>:
  \<open>std::cout << "Failed: " << msg << ", in file " << file << " line " << line << std::endl;\<close>
  with \<open>std::cout\<close> in its initial state; \<open>AssertFail_t\<close> below is the function for any
  state of the stream.
\<close>

definition AssertFail :: "string \<Rightarrow> string \<Rightarrow> cunsigned \<Rightarrow> 'a world_scheme \<Rightarrow> 'a world_scheme" where
  "AssertFail msg file line w =
     w\<lparr>cout := cout w @ ''Failed: '' @ msg @ '', in file '' @ file @ '' line '' @ show_unsigned line @ [newline]\<rparr>"

subsection \<open>METASSERT\<close>

text \<open>
  \<open>(metassert::Build()->*expr).GetExpression()\<close> for \<open>expr\<close> the tokens \<open>a op b\<close>: the
  operator \<open>->*\<close> binds tighter than each of the ten operators, so the builder of \<open>a\<close>
  is the left operand of \<open>op\<close>.
\<close>

definition capture :: "cint \<Rightarrow> string \<Rightarrow> cint \<Rightarrow> Expression option" where
  "capture a tok b =
     (case operator_overload tok of
        None \<Rightarrow> None
      | Some operator_op \<Rightarrow> Some (GetExpression (operator_op (arrow_star Build a) b)))"

text \<open>
  \<open>METASSERT(expr)\<close> for an argument \<open>a op b\<close>: \<open>text\<close> is \<open>#expr\<close>, the spelling of the
  argument; \<open>a\<close> and \<open>b\<close> are the values of the operands and \<open>tok\<close> is the operator token;
  \<open>file\<close> and \<open>line\<close> are \<open>__FILE__\<close> and \<open>__LINE__\<close>. The result is the state in which
  the next statement runs, or the fault.
\<close>

definition METASSERT :: "string \<Rightarrow> cint \<Rightarrow> string \<Rightarrow> cint \<Rightarrow> string \<Rightarrow> cunsigned \<Rightarrow> 'a world_scheme \<Rightarrow> fault + 'a world_scheme" where
  "METASSERT text a tok b file line w =
     (case capture a tok b of
        None \<Rightarrow> Inl NoSuchOperator
      | Some expr' \<Rightarrow>
          (case Expression_result expr' w of
             Inl f \<Rightarrow> Inl f
           | Inr (v, w') \<Rightarrow>
               if \<not> to_bool v then
                 let stream' = Expression_write (([dquote] @ text @ [dquote]) @ '' ('') expr' @ '')''
                 in Inr (AssertFail stream' file line w')
               else Inr w'))"

subsection \<open>Direct application of an operator\<close>

text \<open>
  The value obtained by applying an operator directly to two \<open>int\<close> operands, written
  from the specification's list of the ten supported operators \<open>+ - * / == != < <= > >=\<close>
  and the meaning C++ gives each on \<open>int\<close>. It is defined for these ten tokens only.
\<close>

definition direct_apply :: "string \<Rightarrow> cint \<Rightarrow> cint \<Rightarrow> (fault + val) option" where
  "direct_apply tok a b =
     (if tok = ''+'' then Some (int_add a b)
      else if tok = ''-'' then Some (int_sub a b)
      else if tok = ''*'' then Some (int_mul a b)
      else if tok = ''/'' then Some (int_div a b)
      else if tok = ''=='' then Some (Inr (BoolVal (sint a = sint b)))
      else if tok = ''!='' then Some (Inr (BoolVal (sint a \<noteq> sint b)))
      else if tok = ''<'' then Some (Inr (BoolVal (sint a < sint b)))
      else if tok = ''<='' then Some (Inr (BoolVal (sint a \<le> sint b)))
      else if tok = ''>'' then Some (Inr (BoolVal (sint b < sint a)))
      else if tok = ''>='' then Some (Inr (BoolVal (sint b \<le> sint a)))
      else None)"

definition supported :: "string list" where
  "supported = [''+'', ''-'', ''*'', ''/'', ''=='', ''!='', ''<'', ''<='', ''>'', ''>='']"

section \<open>The templates, with the state of the streams\<close>

text \<open>
  The definitions above are the header at operands of type \<open>int\<close>, in a program that has
  left \<open>std::cout\<close> and the global locale as the library creates them. The definitions
  of this section drop both restrictions. The operand types \<open>Lhs\<close> and \<open>Rhs\<close> are
  parameters, given by what the templates use of them: the ten binary operators, which
  for a class type are functions of the program and may read and write its state, the
  conversion of their result to \<open>bool\<close>, and the stream insertion of a value. A stream
  carries the part of its state that decides what the insertions of the header write:
  the error state, the base, the field width, the fill character and the digit grouping
  of its locale. The other format flags keep their initial values (right adjustment, no
  \<open>showbase\<close>, \<open>showpos\<close> or \<open>uppercase\<close>) and no exception mask is set.
\<close>

subsection \<open>Streams\<close>

datatype basefield = Dec | Oct | Hex

text \<open>
  \<open>os_punct\<close> is the \<open>numpunct\<close> facet of the stream's locale as it acts on the digits of
  an integer: it inserts the thousands separators.
\<close>

record ostream =
  os_chars :: string
  os_good :: bool
  os_base :: basefield
  os_width :: nat
  os_fill :: char
  os_punct :: "string \<Rightarrow> string"

text \<open>The classic locale groups no digits.\<close>

definition classic :: "string \<Rightarrow> string" where
  "classic ds = ds"

text \<open>
  \<open>std::stringstream _stream_;\<close> a new stream has the initial format state and the
  global locale of the moment.
\<close>

definition stringstream :: "(string \<Rightarrow> string) \<Rightarrow> ostream" where
  "stringstream punct =
     \<lparr>os_chars = [], os_good = True, os_base = Dec, os_width = 0, os_fill = CHR '' '',
      os_punct = punct\<rparr>"

text \<open>
  Formatted insertion of a character sequence, \<open>os << s\<close> for a C string or a
  \<open>std::string\<close>: nothing is written unless the stream is good; the text is padded on
  the left to the field width, which is then reset.
\<close>

definition padded :: "ostream \<Rightarrow> string \<Rightarrow> string" where
  "padded os s = replicate (os_width os - length s) (os_fill os) @ s"

definition insert_chars :: "string \<Rightarrow> ostream \<Rightarrow> ostream" where
  "insert_chars s os =
     (if os_good os then os\<lparr>os_chars := os_chars os @ padded os s, os_width := 0\<rparr> else os)"

definition xdigit :: "nat \<Rightarrow> char" where
  "xdigit d = ''0123456789abcdef'' ! d"

function radix_digits :: "nat \<Rightarrow> nat \<Rightarrow> string" where
  "radix_digits r n =
     (if r < 2 \<or> n < r then [xdigit n] else radix_digits r (n div r) @ [xdigit (n mod r)])"
  by pat_completeness auto
termination
  by (relation "measure snd") auto

declare radix_digits.simps [simp del]

definition unsigned_text :: "basefield \<Rightarrow> nat \<Rightarrow> string" where
  "unsigned_text b n =
     (case b of Dec \<Rightarrow> decimal n | Oct \<Rightarrow> radix_digits 8 n | Hex \<Rightarrow> radix_digits 16 n)"

text \<open>\<open>os << unsigned\<close>: the digits in the base of the stream, grouped by its locale.\<close>

definition insert_unsigned :: "cunsigned \<Rightarrow> ostream \<Rightarrow> ostream" where
  "insert_unsigned u os = insert_chars (os_punct os (unsigned_text (os_base os) (unat u))) os"

text \<open>\<open>os << std::endl\<close>: an unformatted newline (and a flush); the width is not used.\<close>

definition insert_endl :: "ostream \<Rightarrow> ostream" where
  "insert_endl os = (if os_good os then os\<lparr>os_chars := os_chars os @ [newline]\<rparr> else os)"

subsection \<open>Operand types\<close>

text \<open>
  What the templates use of \<open>Lhs\<close> and \<open>Rhs\<close>. \<open>apply_op name a b\<close> is \<open>a op b\<close> for the
  \<open>op\<close> of the use of the macro that defines \<open>name\<close>, run in a state of the program: it
  faults or gives a result and the next state. \<open>to_truth\<close> is the conversion of the
  result to \<open>bool\<close>. \<open>render_lhs\<close> and \<open>render_rhs\<close> are the characters that the insertion
  of a value writes to a new stream, given the digit grouping of its locale.
\<close>

record ('l, 'r, 'res, 's) operand_types =
  apply_op :: "opname \<Rightarrow> 'l \<Rightarrow> 'r \<Rightarrow> 's \<Rightarrow> fault + 'res \<times> 's"
  to_truth :: "'res \<Rightarrow> bool"
  render_lhs :: "(string \<Rightarrow> string) \<Rightarrow> 'l \<Rightarrow> string"
  render_rhs :: "(string \<Rightarrow> string) \<Rightarrow> 'r \<Rightarrow> string"

text \<open>\<open>os << int\<close> on a new stream: the sign, then the decimal digits grouped by the locale.\<close>

definition render_int :: "(string \<Rightarrow> string) \<Rightarrow> cint \<Rightarrow> string" where
  "render_int punct i =
     (if sint i < 0 then CHR ''-'' # punct (decimal (nat (- sint i)))
      else punct (decimal (nat (sint i))))"

text \<open>The built-in type \<open>int\<close> on both sides: its operators leave the state alone.\<close>

definition int_operands :: "(cint, cint, val, 's) operand_types" where
  "int_operands =
     \<lparr>apply_op = (\<lambda>name a b s. case functor_call name a b of Inl f \<Rightarrow> Inl f | Inr v \<Rightarrow> Inr (v, s)),
      to_truth = to_bool,
      render_lhs = render_int,
      render_rhs = render_int\<rparr>"

text \<open>
  The built-in type \<open>char\<close> on both sides, a signed type as on the header's platform:
  the operators promote both operands to \<open>int\<close>, and the insertion of a \<open>char\<close> writes
  the character.
\<close>

definition promote :: "char \<Rightarrow> cint" where
  "promote c = (if of_char c < (128 :: nat) then of_nat (of_char c) else of_nat (of_char c) - 256)"

definition char_operands :: "(char, char, val, 's) operand_types" where
  "char_operands =
     \<lparr>apply_op = (\<lambda>name a b s. case functor_call name (promote a) (promote b) of
                    Inl f \<Rightarrow> Inl f | Inr v \<Rightarrow> Inr (v, s)),
      to_truth = to_bool,
      render_lhs = (\<lambda>punct c. [c]),
      render_rhs = (\<lambda>punct c. [c])\<rparr>"

text \<open>
  A class type on both sides: an object holds a number, and the class declares the six
  comparison operators as functions of the program that compare the numbers and add one
  to a counter of the program at each call; it declares no arithmetic operator. The
  insertion of an object writes its number.
\<close>

definition counting_operands :: "(nat, nat, bool, nat) operand_types" where
  "counting_operands =
     \<lparr>apply_op = (\<lambda>name a b calls.
        case name of
          Equal \<Rightarrow> Inr (a = b, Suc calls)
        | NotEqual \<Rightarrow> Inr (a \<noteq> b, Suc calls)
        | LessThan \<Rightarrow> Inr (a < b, Suc calls)
        | LessOrEqual \<Rightarrow> Inr (a \<le> b, Suc calls)
        | GreaterThan \<Rightarrow> Inr (b < a, Suc calls)
        | GreaterOrEqual \<Rightarrow> Inr (b \<le> a, Suc calls)
        | _ \<Rightarrow> Inl NoSuchOperator),
      to_truth = (\<lambda>v. v),
      render_lhs = (\<lambda>punct a. punct (decimal a)),
      render_rhs = (\<lambda>punct b. punct (decimal b))\<rparr>"

subsection \<open>Expression, for any operand types\<close>

record ('l, 'r) Expression_t =
  m_lhs_t :: 'l
  m_rhs_t :: 'r
  m_op_t :: opname

text \<open>\<open>operator##op (ExpressionBuilder<Lhs>& builder, const Rhs& rhs)\<close>\<close>

definition builder_operator_t :: "opname \<Rightarrow> 'l ExpressionBuilder \<Rightarrow> 'r \<Rightarrow> ('l, 'r) Expression_t ExpressionBuilder" where
  "builder_operator_t name builder rhs =
     (let expr = \<lparr>m_lhs_t = GetExpression builder, m_rhs_t = rhs, m_op_t = name\<rparr>
      in ExpressionBuilder expr)"

text \<open>\<open>(metassert::Build()->*expr).GetExpression()\<close> for \<open>expr\<close> the tokens \<open>a op b\<close>\<close>

definition capture_t :: "'l \<Rightarrow> string \<Rightarrow> 'r \<Rightarrow> ('l, 'r) Expression_t option" where
  "capture_t a tok b =
     (case map_of operators tok of
        None \<Rightarrow> None
      | Some name \<Rightarrow> Some (GetExpression (builder_operator_t name (arrow_star Build a) b)))"

text \<open>
  \<open>Expression::operator ResultType() const\<close>: \<open>return m_op(m_lhs, m_rhs);\<close> where the
  functor returns \<open>a op b\<close>.
\<close>

definition Expression_result_t :: "('l, 'r, 'res, 's) operand_types \<Rightarrow> ('l, 'r) Expression_t \<Rightarrow> 's \<Rightarrow> fault + 'res \<times> 's" where
  "Expression_result_t T e s = apply_op T (m_op_t e) (m_lhs_t e) (m_rhs_t e) s"

text \<open>
  \<open>operator<<(std::ostream& stream, const Expression& expr)\<close>:
  \<open>stream << expr.m_lhs << " " << expr.m_op << " " << expr.m_rhs;\<close> where the functor
  inserts \<open>#op\<close>. The header applies it to the new stream of \<open>METASSERT\<close> only, which
  is what the renderings of the operand types are given for.
\<close>

definition Expression_write_t :: "('l, 'r, 'res, 's) operand_types \<Rightarrow> ostream \<Rightarrow> ('l, 'r) Expression_t \<Rightarrow> ostream" where
  "Expression_write_t T stream expr =
     insert_chars (render_rhs T (os_punct stream) (m_rhs_t expr))
       (insert_chars '' ''
         (insert_chars (functor_write [] (m_op_t expr))
           (insert_chars '' ''
             (insert_chars (render_lhs T (os_punct stream) (m_lhs_t expr)) stream))))"

subsection \<open>AssertFail and METASSERT, with the state of the program\<close>

text \<open>
  \<open>std_cout\<close> is \<open>std::cout\<close>, \<open>global_punct\<close> is the digit grouping of the global locale,
  and \<open>user\<close> is the state that the operators of the operand types work on.
\<close>

record 's program =
  std_cout :: ostream
  global_punct :: "string \<Rightarrow> string"
  user :: 's

text \<open>
  \<open>std::cout << "Failed: " << msg << ", in file " << file << " line " << line << std::endl;\<close>
\<close>

definition AssertFail_t :: "string \<Rightarrow> string \<Rightarrow> cunsigned \<Rightarrow> ostream \<Rightarrow> ostream" where
  "AssertFail_t msg file line os =
     insert_endl
       (insert_unsigned line
         (insert_chars '' line ''
           (insert_chars file
             (insert_chars '', in file ''
               (insert_chars msg
                 (insert_chars ''Failed: '' os))))))"

text \<open>
  \<open>METASSERT(expr)\<close> for an argument \<open>a op b\<close> with operands of the types \<open>T\<close>; the
  parameters are those of \<open>METASSERT\<close> above.
\<close>

definition METASSERT_t :: "('l, 'r, 'res, 's) operand_types \<Rightarrow> string \<Rightarrow> 'l \<Rightarrow> string \<Rightarrow> 'r \<Rightarrow> string \<Rightarrow> cunsigned \<Rightarrow> 's program \<Rightarrow> fault + 's program" where
  "METASSERT_t T text a tok b file line p =
     (case capture_t a tok b of
        None \<Rightarrow> Inl NoSuchOperator
      | Some expr' \<Rightarrow>
          (case Expression_result_t T expr' (user p) of
             Inl f \<Rightarrow> Inl f
           | Inr (v, s') \<Rightarrow>
               if \<not> to_truth T v then
                 let stream' =
                   insert_chars '')''
                     (Expression_write_t T
                       (insert_chars '' (''
                         (insert_chars ([dquote] @ text @ [dquote])
                           (stringstream (global_punct p))))
                       expr')
                 in Inr (p\<lparr>std_cout := AssertFail_t (os_chars stream') file line (std_cout p),
                          user := s'\<rparr>)
               else Inr (p\<lparr>user := s'\<rparr>)))"

subsection \<open>Decimal numerals\<close>

text \<open>
  What it is for a text to be the decimal numeral of a number, said without the
  rendering functions: digits only, no leading zero, and the value read back.
\<close>

definition digit_value :: "char \<Rightarrow> nat" where
  "digit_value c = of_char c - 48"

definition numeral_value :: "string \<Rightarrow> nat" where
  "numeral_value s = foldl (\<lambda>n c. 10 * n + digit_value c) 0 s"

definition decimal_numeral :: "string \<Rightarrow> nat \<Rightarrow> bool" where
  "decimal_numeral s n \<longleftrightarrow>
     s \<noteq> [] \<and> list_all (\<lambda>c. c \<in> set ''0123456789'') s \<and> numeral_value s = n
     \<and> (length s = 1 \<or> hd s \<noteq> CHR ''0'')"

definition int_numeral :: "string \<Rightarrow> int \<Rightarrow> bool" where
  "int_numeral s i \<longleftrightarrow>
     (if i < 0 then s \<noteq> [] \<and> hd s = CHR ''-'' \<and> decimal_numeral (tl s) (nat (- i))
      else decimal_numeral s (nat i))"

section \<open>Properties\<close>

subsection \<open>Decimal rendering\<close>

lemma digit_set: "d < 10 \<Longrightarrow> digit d \<in> set ''0123456789''"
  unfolding digit_def by (rule nth_mem) simp

lemma decimal_digits: "set (decimal n) \<subseteq> set ''0123456789''"
proof (induction n rule: decimal.induct)
  case (1 n)
  show ?case
  proof (cases "n < 10")
    case True
    then show ?thesis
      using digit_set [of n] by (subst decimal.simps) simp
  next
    case False
    have "digit (n mod 10) \<in> set ''0123456789''"
      by (rule digit_set) simp
    with False 1 show ?thesis
      by (subst decimal.simps) simp
  qed
qed

lemma newline_decimal: "newline \<notin> set (decimal n)"
  using decimal_digits [of n] by (auto simp: newline_def)

subsection \<open>The table of operators\<close>

lemma operators_token:
  "map_of operators tok = Some name \<Longrightarrow> functor_write os name = os @ tok"
  by (auto simp: operators_def split: if_splits)

lemma operators_newline:
  "map_of operators tok = Some name \<Longrightarrow> newline \<notin> set tok"
  by (auto simp: operators_def newline_def split: if_splits)

lemma capture_Some:
  "capture a tok b = Some e \<longleftrightarrow>
     (\<exists>name. map_of operators tok = Some name \<and> e = \<lparr>m_lhs = a, m_rhs = b, m_op = name\<rparr>)"
  by (auto simp: capture_def operator_overload_def builder_operator_def arrow_star_def
      split: option.splits)

lemma capture_write:
  "capture a tok b = Some e \<Longrightarrow>
     Expression_write stream e = stream @ show_int a @ '' '' @ tok @ '' '' @ show_int b"
  by (auto simp: capture_Some Expression_write_def operators_token)

lemma supported_operators:
  "tok \<in> set supported \<Longrightarrow> \<exists>name. map_of operators tok = Some name"
  by (auto simp: supported_def operators_def)

lemma sint_eq_iff: "sint a = sint b \<longleftrightarrow> a = b" for a b :: cint
  using word_eq_iff_signed [of a b] by auto

lemma functor_call_direct:
  "map_of operators tok = Some name \<Longrightarrow> direct_apply tok a b = Some (functor_call name a b)"
  by (auto simp: operators_def direct_apply_def sint_eq_iff split: if_splits)

subsection \<open>The two paths of the statement\<close>

lemma Expression_result_Inr:
  "Expression_result e w = Inr (v, w') \<longleftrightarrow>
     functor_call (m_op e) (m_lhs e) (m_rhs e) = Inr v \<and> w' = w\<lparr>op_calls := Suc (op_calls w)\<rparr>"
  by (auto simp: Expression_result_def split: sum.splits)

lemma METASSERT_failed:
  assumes "capture a tok b = Some e"
    and "Expression_result e w = Inr (v, w')"
    and "\<not> to_bool v"
  shows "METASSERT text a tok b file line w =
     Inr (w'\<lparr>cout := cout w' @ ''Failed: '' @ [dquote] @ text @ [dquote] @ '' ('' @ show_int a
        @ '' '' @ tok @ '' '' @ show_int b @ ''), in file '' @ file @ '' line ''
        @ show_unsigned line @ [newline]\<rparr>)"
  using assms by (simp add: METASSERT_def AssertFail_def capture_write)

lemma METASSERT_passed:
  assumes "capture a tok b = Some e"
    and "Expression_result e w = Inr (v, w')"
    and "to_bool v"
  shows "METASSERT text a tok b file line w = Inr w'"
  using assms by (simp add: METASSERT_def)

subsection \<open>Built-in division\<close>

lemma sint_bounds: "INT_MIN \<le> sint (a :: cint) \<and> sint a \<le> INT_MAX"
  using sint_ge [of a] sint_lt [of a] by (simp add: INT_MIN_def INT_MAX_def)

lemma sint_int_result:
  "INT_MIN \<le> r \<Longrightarrow> r \<le> INT_MAX \<Longrightarrow> sint (word_of_int r :: cint) = r"
  by (simp add: INT_MIN_def INT_MAX_def sint_sbintrunc' signed_take_bit_int_eq_self)

lemma abs_div_nonneg: "0 \<le> \<bar>x\<bar> div \<bar>y :: int\<bar>"
  using div_int_pos_iff by force

lemma abs_div_half: "2 \<le> \<bar>y\<bar> \<Longrightarrow> 2 * (\<bar>x\<bar> div \<bar>y\<bar>) \<le> \<bar>x :: int\<bar>"
proof -
  assume y: "2 \<le> \<bar>y\<bar>"
  have "\<bar>y\<bar> * (\<bar>x\<bar> div \<bar>y\<bar>) + \<bar>x\<bar> mod \<bar>y\<bar> = \<bar>x\<bar>"
    by (rule mult_div_mod_eq)
  moreover have "0 \<le> \<bar>x\<bar> mod \<bar>y\<bar>"
    using y by (simp add: pos_mod_sign)
  ultimately have "\<bar>y\<bar> * (\<bar>x\<bar> div \<bar>y\<bar>) \<le> \<bar>x\<bar>"
    by linarith
  moreover have "2 * (\<bar>x\<bar> div \<bar>y\<bar>) \<le> \<bar>y\<bar> * (\<bar>x\<bar> div \<bar>y\<bar>)"
    using y abs_div_nonneg [of x y] by (rule mult_right_mono)
  ultimately show ?thesis by linarith
qed

lemma c_quotient_range:
  assumes "INT_MIN \<le> x" "x \<le> INT_MAX" "y \<noteq> 0"
    and "\<not> (x = INT_MIN \<and> y = - 1)"
  shows "INT_MIN \<le> c_quotient x y \<and> c_quotient x y \<le> INT_MAX"
proof (cases "2 \<le> \<bar>y\<bar>")
  case True
  then have "2 * (\<bar>x\<bar> div \<bar>y\<bar>) \<le> \<bar>x\<bar>"
    by (rule abs_div_half)
  with abs_div_nonneg [of x y] assms(1,2) show ?thesis
    by (auto simp: c_quotient_def INT_MIN_def INT_MAX_def sgn_if)
next
  case False
  with assms(3) have "y = 1 \<or> y = - 1" by linarith
  with assms(1,2,4) show ?thesis
    by (auto simp: c_quotient_def INT_MIN_def INT_MAX_def sgn_if)
qed

lemma int_div_defined:
  assumes "b \<noteq> 0" and "\<not> (sint a = INT_MIN \<and> sint b = - 1)"
  shows "int_div a b = Inr (IntVal (word_of_int (c_quotient (sint a) (sint b))))"
    and "sint (word_of_int (c_quotient (sint a) (sint b)) :: cint) = c_quotient (sint a) (sint b)"
proof -
  from assms(1) have nz: "sint b \<noteq> 0"
    by (simp add: signed_eq_0_iff)
  have r: "INT_MIN \<le> c_quotient (sint a) (sint b) \<and> c_quotient (sint a) (sint b) \<le> INT_MAX"
    using sint_bounds [of a] nz assms(2) by (intro c_quotient_range) simp_all
  from nz r show "int_div a b = Inr (IntVal (word_of_int (c_quotient (sint a) (sint b))))"
    by (simp add: int_div_def int_result_def)
  from r show "sint (word_of_int (c_quotient (sint a) (sint b)) :: cint) = c_quotient (sint a) (sint b)"
    by (simp add: sint_int_result)
qed

subsection \<open>Concrete renderings\<close>

lemma show_int_41: "show_int 41 = ''41''"
  by (simp add: show_int_def decimal.simps digit_def)

lemma show_int_18467: "show_int 18467 = ''18467''"
  by (simp add: show_int_def decimal.simps digit_def)

lemma show_int_3: "show_int 3 = ''3''"
  by (simp add: show_int_def decimal.simps digit_def)

lemma show_int_2: "show_int 2 = ''2''"
  by (simp add: show_int_def decimal.simps digit_def)

lemma show_unsigned_6: "show_unsigned 6 = ''6''"
  by (simp add: show_unsigned_def decimal.simps digit_def)

lemma capture_eq: "capture 41 ''=='' 18467 = Some \<lparr>m_lhs = 41, m_rhs = 18467, m_op = Equal\<rparr>"
  by (simp add: capture_Some operators_def)

lemma capture_less: "capture 3 ''<'' 2 = Some \<lparr>m_lhs = 3, m_rhs = 2, m_op = LessThan\<rparr>"
  by (simp add: capture_Some operators_def)

lemma capture_greater_eq: "capture 3 ''>='' 2 = Some \<lparr>m_lhs = 3, m_rhs = 2, m_op = GreaterOrEqual\<rparr>"
  by (simp add: capture_Some operators_def)

lemma result_greater_eq:
  "Expression_result \<lparr>m_lhs = 3, m_rhs = 2, m_op = GreaterOrEqual\<rparr> \<lparr>cout = [], op_calls = 0\<rparr>
     = Inr (BoolVal True, \<lparr>cout = [], op_calls = 1\<rparr>)"
  by (simp add: Expression_result_def)

subsection \<open>Decimal numerals\<close>

lemma digit_value_digit: "d < 10 \<Longrightarrow> digit_value (digit d) = d"
proof -
  assume "d < 10"
  then have "d \<in> {0, 1, 2, 3, 4, 5, 6, 7, 8, 9}"
    by auto
  then show ?thesis
    by (auto simp: digit_value_def digit_def)
qed

lemma numeral_value_snoc:
  "numeral_value (s @ [c]) = 10 * numeral_value s + digit_value c"
  by (simp add: numeral_value_def)

lemma decimal_nonempty: "decimal n \<noteq> []"
  by (subst decimal.simps) simp

lemma numeral_value_decimal: "numeral_value (decimal n) = n"
proof (induction n rule: decimal.induct)
  case (1 n)
  show ?case
  proof (cases "n < 10")
    case True
    then show ?thesis
      by (subst decimal.simps) (simp add: numeral_value_def digit_value_digit)
  next
    case False
    with 1 have "numeral_value (decimal (n div 10)) = n div 10"
      by simp
    with False show ?thesis
      by (subst decimal.simps) (simp add: numeral_value_snoc digit_value_digit)
  qed
qed

lemma digit_zero: "d < 10 \<Longrightarrow> digit d = CHR ''0'' \<Longrightarrow> d = 0"
proof -
  assume "d < 10" and z: "digit d = CHR ''0''"
  then have "d \<in> {0, 1, 2, 3, 4, 5, 6, 7, 8, 9}"
    by auto
  with z show ?thesis
    by (auto simp: digit_def)
qed

lemma decimal_leading: "hd (decimal n) = CHR ''0'' \<Longrightarrow> n = 0"
proof (induction n rule: decimal.induct)
  case (1 n)
  show ?case
  proof (cases "n < 10")
    case True
    with "1.prems" show ?thesis
      by (subst (asm) decimal.simps) (simp add: digit_zero)
  next
    case False
    with "1.prems" have "hd (decimal (n div 10)) = CHR ''0''"
      by (subst (asm) decimal.simps) (simp add: decimal_nonempty)
    with False 1 have "n div 10 = 0"
      by simp
    with False show ?thesis
      by simp
  qed
qed

lemma decimal_zero: "decimal 0 = ''0''"
  by (subst decimal.simps) (simp add: digit_def)

lemma decimal_is_numeral: "decimal_numeral (decimal n) n"
proof -
  have c: "length (decimal n) = 1 \<or> hd (decimal n) \<noteq> CHR ''0''"
  proof (cases "hd (decimal n) = CHR ''0''")
    case True
    then have "n = 0"
      by (rule decimal_leading)
    then show ?thesis
      by (simp add: decimal_zero)
  next
    case False
    then show ?thesis
      by simp
  qed
  have d: "list_all (\<lambda>c. c \<in> set ''0123456789'') (decimal n)"
    unfolding list_all_iff using decimal_digits [of n] by blast
  from c d show ?thesis
    unfolding decimal_numeral_def
    by (intro conjI decimal_nonempty numeral_value_decimal)
qed
lemma show_int_is_numeral: "int_numeral (show_int i) (sint i)"
  by (simp add: int_numeral_def show_int_def decimal_is_numeral)

lemma show_unsigned_is_numeral: "decimal_numeral (show_unsigned u) (unat u)"
  by (simp add: show_unsigned_def decimal_is_numeral)

lemma render_int_classic: "render_int classic i = show_int i"
  by (simp add: render_int_def show_int_def classic_def)

lemma digit_value_less: "c \<in> set ''0123456789'' \<Longrightarrow> digit_value c < 10"
  by (auto simp: digit_value_def)

lemma digit_value_inject:
  "c \<in> set ''0123456789'' \<Longrightarrow> d \<in> set ''0123456789'' \<Longrightarrow> digit_value c = digit_value d \<Longrightarrow> c = d"
  by (auto simp: digit_value_def)

lemma digit_value_zero:
  "c \<in> set ''0123456789'' \<Longrightarrow> digit_value c = 0 \<Longrightarrow> c = CHR ''0''"
  by (auto simp: digit_value_def)

lemma numeral_value_positive:
  "s \<noteq> [] \<Longrightarrow> list_all (\<lambda>c. c \<in> set ''0123456789'') s \<Longrightarrow> hd s \<noteq> CHR ''0''
     \<Longrightarrow> 0 < numeral_value s"
proof (induction s rule: rev_induct)
  case Nil
  then show ?case by simp
next
  case (snoc x xs)
  show ?case
  proof (cases "xs = []")
    case True
    with snoc.prems have "x \<in> set ''0123456789''" and "x \<noteq> CHR ''0''"
      by simp_all
    then have "digit_value x \<noteq> 0"
      using digit_value_zero by blast
    with True show ?thesis
      by (simp add: numeral_value_def)
  next
    case False
    with snoc have "0 < numeral_value xs"
      by simp
    then show ?thesis
      by (simp add: numeral_value_snoc)
  qed
qed


lemma base10_unique:
  "a < 10 \<Longrightarrow> b < 10 \<Longrightarrow> 10 * p + a = 10 * q + b \<Longrightarrow> p = q \<and> a = (b::nat)"
  by presburger

lemma decimal_numeral_snoc:
  assumes "decimal_numeral (xs @ [x]) n"
  shows "x \<in> set ''0123456789''"
    and "list_all (\<lambda>c. c \<in> set ''0123456789'') xs"
    and "10 * numeral_value xs + digit_value x = n"
    and "xs \<noteq> [] \<Longrightarrow> hd xs \<noteq> CHR ''0''"
proof -
  from assms have a: "list_all (\<lambda>c. c \<in> set ''0123456789'') (xs @ [x])"
    and b: "numeral_value (xs @ [x]) = n"
    and c: "length (xs @ [x]) = 1 \<or> hd (xs @ [x]) \<noteq> CHR ''0''"
    unfolding decimal_numeral_def by blast+
  from a show "x \<in> set ''0123456789''"
    unfolding list_all_iff by simp
  from a show "list_all (\<lambda>c. c \<in> set ''0123456789'') xs"
    unfolding list_all_iff by simp
  from b show "10 * numeral_value xs + digit_value x = n"
    by (simp only: numeral_value_snoc)
  assume "xs \<noteq> []"
  with c show "hd xs \<noteq> CHR ''0''"
    by (cases xs) simp_all
qed

lemma decimal_numeral_init:
  assumes "xs \<noteq> []"
    and "list_all (\<lambda>c. c \<in> set ''0123456789'') xs"
    and "hd xs \<noteq> CHR ''0''"
  shows "decimal_numeral xs (numeral_value xs)"
  unfolding decimal_numeral_def using assms by blast

lemma decimal_numeral_unique:
  "decimal_numeral s n \<Longrightarrow> decimal_numeral t n \<Longrightarrow> s = t"
proof (induction s arbitrary: t n rule: rev_induct)
  case Nil
  then show ?case
    unfolding decimal_numeral_def by blast
next
  case (snoc x xs)
  from snoc.prems(2) have "t \<noteq> []"
    unfolding decimal_numeral_def by blast
  then obtain ys y where t: "t = ys @ [y]"
    by (metis rev_exhaust)
  note sx = decimal_numeral_snoc [OF snoc.prems(1)]
  note sy = decimal_numeral_snoc [OF snoc.prems(2) [unfolded t]]
  from sx(3) sy(3) have "10 * numeral_value xs + digit_value x = 10 * numeral_value ys + digit_value y"
    by (rule trans [OF _ sym])
  with digit_value_less [OF sx(1)] digit_value_less [OF sy(1)]
  have v: "numeral_value xs = numeral_value ys \<and> digit_value x = digit_value y"
    by (rule base10_unique)
  with sx(1) sy(1) have xy: "x = y"
    by (blast intro: digit_value_inject)
  have e: "numeral_value [] = 0"
    by (simp add: numeral_value_def)
  have "xs = ys"
  proof (cases "xs = []")
    case True
    show ?thesis
    proof (cases "ys = []")
      case True
      with \<open>xs = []\<close> show ?thesis by simp
    next
      case False
      with sy(2) sy(4) have "0 < numeral_value ys"
        by (intro numeral_value_positive)
      with v True e show ?thesis
        by (metis less_numeral_extra(3))
    qed
  next
    case False
    with sx(2) sx(4) have px: "0 < numeral_value xs"
      by (intro numeral_value_positive)
    with v e have ny: "ys \<noteq> []"
      by (metis less_numeral_extra(3))
    from False sx(2) sx(4) have "decimal_numeral xs (numeral_value xs)"
      by (intro decimal_numeral_init)
    moreover from ny sy(2) sy(4) have "decimal_numeral ys (numeral_value ys)"
      by (intro decimal_numeral_init)
    ultimately show ?thesis
      using v snoc.IH by metis
  qed
  with xy t show ?case
    by (simp only:)
qed

lemma decimal_numeral_decimal: "decimal_numeral s n \<longleftrightarrow> s = decimal n"
  using decimal_numeral_unique decimal_is_numeral by blast

lemma int_numeral_show_int: "int_numeral s (sint i) \<longleftrightarrow> s = show_int i"
proof (cases "sint i < 0")
  case True
  have "s \<noteq> [] \<and> hd s = CHR ''-'' \<and> tl s = decimal (nat (- sint i))
          \<longleftrightarrow> s = CHR ''-'' # decimal (nat (- sint i))"
    by (cases s) auto
  with True show ?thesis
    by (simp add: int_numeral_def show_int_def decimal_numeral_decimal)
next
  case False
  then show ?thesis
    by (simp add: int_numeral_def show_int_def decimal_numeral_decimal)
qed

subsection \<open>Insertion into a stream\<close>

lemma insert_chars_plain:
  "os_good os \<Longrightarrow> os_width os = 0 \<Longrightarrow> insert_chars s os = os\<lparr>os_chars := os_chars os @ s\<rparr>"
  by (simp add: insert_chars_def padded_def)

lemma insert_chars_state:
  "os_good (insert_chars s os) = os_good os"
  "os_base (insert_chars s os) = os_base os"
  "os_punct (insert_chars s os) = os_punct os"
  "os_fill (insert_chars s os) = os_fill os"
  "os_good os \<Longrightarrow> os_width (insert_chars s os) = 0"
  by (simp_all add: insert_chars_def)

lemma stringstream_state:
  "os_good (stringstream punct)"
  "os_width (stringstream punct) = 0"
  "os_chars (stringstream punct) = []"
  "os_punct (stringstream punct) = punct"
  by (simp_all add: stringstream_def)

lemma capture_t_Some:
  "capture_t a tok b = Some e \<longleftrightarrow>
     (\<exists>name. map_of operators tok = Some name \<and> e = \<lparr>m_lhs_t = a, m_rhs_t = b, m_op_t = name\<rparr>)"
  by (auto simp: capture_t_def builder_operator_t_def arrow_star_def split: option.splits)

lemma message_chars:
  assumes "capture_t a tok b = Some e"
  shows "os_chars (insert_chars '')''
           (Expression_write_t T
             (insert_chars '' ('' (insert_chars ([dquote] @ text @ [dquote]) (stringstream punct)))
             e))
         = [dquote] @ text @ [dquote] @ '' ('' @ render_lhs T punct a @ '' '' @ tok @ '' ''
             @ render_rhs T punct b @ '')''"
proof -
  from assms obtain name where n: "map_of operators tok = Some name"
    and e: "e = \<lparr>m_lhs_t = a, m_rhs_t = b, m_op_t = name\<rparr>"
    by (auto simp: capture_t_Some)
  from n have "functor_write [] name = tok"
    by (simp add: operators_token)
  with e show ?thesis
    by (simp add: Expression_write_t_def insert_chars_plain insert_chars_state stringstream_state)
qed

lemma AssertFail_t_plain:
  assumes "os_good os" and "os_width os = 0"
  shows "AssertFail_t msg file line os =
     os\<lparr>os_chars := os_chars os @ ''Failed: '' @ msg @ '', in file '' @ file @ '' line ''
           @ os_punct os (unsigned_text (os_base os) (unat line)) @ [newline]\<rparr>"
  using assms
  by (simp add: AssertFail_t_def insert_unsigned_def insert_endl_def insert_chars_plain
      insert_chars_state)

lemma METASSERT_t_failed:
  assumes "capture_t a tok b = Some e"
    and "Expression_result_t T e (user p) = Inr (v, s')"
    and "\<not> to_truth T v"
    and "os_good (std_cout p)" and "os_width (std_cout p) = 0"
  shows "METASSERT_t T text a tok b file line p =
     Inr (p\<lparr>std_cout := (std_cout p)\<lparr>os_chars := os_chars (std_cout p) @ ''Failed: '' @ [dquote]
             @ text @ [dquote] @ '' ('' @ render_lhs T (global_punct p) a @ '' '' @ tok @ '' ''
             @ render_rhs T (global_punct p) b @ ''), in file '' @ file @ '' line ''
             @ os_punct (std_cout p) (unsigned_text (os_base (std_cout p)) (unat line))
             @ [newline]\<rparr>,
           user := s'\<rparr>)"
  using assms message_chars [OF assms(1), of T "text" "global_punct p"]
  by (simp add: METASSERT_t_def AssertFail_t_plain)

subsection \<open>Operands of type \<open>int\<close>\<close>

lemma int_operands_result:
  "Expression_result_t int_operands e s = Inr (v, s') \<longleftrightarrow>
     functor_call (m_op_t e) (m_lhs_t e) (m_rhs_t e) = Inr v \<and> s' = s"
  by (auto simp: Expression_result_t_def int_operands_def split: sum.splits)

lemma int_operands_fields:
  "to_truth int_operands = to_bool"
  "render_lhs int_operands = render_int"
  "render_rhs int_operands = render_int"
  by (simp_all add: int_operands_def)

lemma capture_t_eq:
  "capture_t (41 :: cint) ''=='' (18467 :: cint) = Some \<lparr>m_lhs_t = 41, m_rhs_t = 18467, m_op_t = Equal\<rparr>"
  by (simp add: capture_t_Some operators_def)

lemma capture_t_eq_small:
  "capture_t (1 :: cint) ''=='' (2 :: cint) = Some \<lparr>m_lhs_t = 1, m_rhs_t = 2, m_op_t = Equal\<rparr>"
  by (simp add: capture_t_Some operators_def)

lemma result_t_eq_small:
  "Expression_result_t int_operands \<lparr>m_lhs_t = 1, m_rhs_t = 2, m_op_t = Equal\<rparr> s
     = Inr (BoolVal False, s)"
  by (simp add: int_operands_result)

lemma show_int_1: "show_int 1 = ''1''"
  by (simp add: show_int_def decimal.simps digit_def)

lemma hex_26: "unsigned_text Hex 26 = ''1a''"
  by (simp add: unsigned_text_def radix_digits.simps xdigit_def)


lemma decimal_6: "decimal 6 = ''6''"
  by (simp add: decimal.simps digit_def)

subsection \<open>What an insertion appends\<close>







subsection \<open>The statement at \<open>int\<close> in the initial state of the streams\<close>

lemma AssertFail_t_initial:
  assumes "os_good os" and "os_base os = Dec" and "os_width os = 0" and "os_punct os = classic"
  shows "os_chars (AssertFail_t msg file line os)
     = cout (AssertFail msg file line \<lparr>cout = os_chars os, op_calls = n\<rparr>)"
  using assms
  by (simp add: AssertFail_t_plain AssertFail_def unsigned_text_def show_unsigned_def classic_def)

lemma METASSERT_t_initial:
  assumes "os_good (std_cout p)" and "os_base (std_cout p) = Dec"
    and "os_width (std_cout p) = 0" and "os_punct (std_cout p) = classic"
    and "global_punct p = classic"
  shows "map_sum id (\<lambda>p'. os_chars (std_cout p'))
           (METASSERT_t int_operands text a tok b file line p)
         = map_sum id cout
           (METASSERT text a tok b file line \<lparr>cout = os_chars (std_cout p), op_calls = n\<rparr>)"
proof (cases "map_of operators tok")
  case None
  then show ?thesis
    by (simp add: METASSERT_t_def METASSERT_def capture_t_def capture_def operator_overload_def)
next
  case (Some name)
  then have c: "capture a tok b = Some \<lparr>m_lhs = a, m_rhs = b, m_op = name\<rparr>"
    and ct: "capture_t a tok b = Some \<lparr>m_lhs_t = a, m_rhs_t = b, m_op_t = name\<rparr>"
    by (simp_all add: capture_Some capture_t_Some)
  show ?thesis
  proof (cases "functor_call name a b")
    case (Inl f)
    with c ct show ?thesis
      by (simp add: METASSERT_t_def METASSERT_def Expression_result_t_def Expression_result_def
          int_operands_def)
  next
    case (Inr v)
    then have r: "Expression_result \<lparr>m_lhs = a, m_rhs = b, m_op = name\<rparr>
          \<lparr>cout = os_chars (std_cout p), op_calls = n\<rparr>
        = Inr (v, \<lparr>cout = os_chars (std_cout p), op_calls = Suc n\<rparr>)"
      and rt: "Expression_result_t int_operands \<lparr>m_lhs_t = a, m_rhs_t = b, m_op_t = name\<rparr> (user p)
        = Inr (v, user p)"
      by (simp_all add: Expression_result_def int_operands_result)
    show ?thesis
    proof (cases "to_bool v")
      case True
      with c ct r rt show ?thesis
        by (simp add: METASSERT_t_def METASSERT_def int_operands_fields)
    next
      case False
      then have f: "\<not> to_truth int_operands v"
        by (simp add: int_operands_fields)
      show ?thesis
        using METASSERT_t_failed [OF ct rt f assms(1,3), of "text" "file" "line"]
          METASSERT_failed [OF c r False, of "text" "file" "line"] assms(2,4,5)
        by (simp add: int_operands_fields render_int_classic unsigned_text_def
            show_unsigned_def classic_def)
    qed
  qed
qed

section \<open>The claims\<close>

text \<open>
  C6. The worked examples. With \<open>a = 41\<close> and \<open>b = 18467\<close>, \<open>METASSERT(a == b)\<close> on line 6
  of main.cpp appends exactly \<open>Failed: "a == b" (41 == 18467), in file main.cpp line 6\<close>
  and a newline to standard output. With \<open>a = 3\<close> and \<open>b = 2\<close>, \<open>METASSERT(a < b)\<close> in
  any file on any line appends \<open>Failed: "a < b" (3 < 2), in file <file> line <N>\<close> and a
  newline.
\<close>

theorem worked_examples:
  "METASSERT ''a == b'' 41 ''=='' 18467 ''main.cpp'' 6 w =
     Inr (w\<lparr>cout := cout w @ ''Failed: '' @ [dquote] @ ''a == b'' @ [dquote]
            @ '' (41 == 18467), in file main.cpp line 6'' @ [newline],
          op_calls := Suc (op_calls w)\<rparr>)
   \<and> METASSERT ''a < b'' 3 ''<'' 2 file line w =
     Inr (w\<lparr>cout := cout w @ ''Failed: '' @ [dquote] @ ''a < b'' @ [dquote]
            @ '' (3 < 2), in file '' @ file @ '' line '' @ show_unsigned line @ [newline],
          op_calls := Suc (op_calls w)\<rparr>)"
proof
  have "Expression_result \<lparr>m_lhs = 41, m_rhs = 18467, m_op = Equal\<rparr> w
          = Inr (BoolVal False, w\<lparr>op_calls := Suc (op_calls w)\<rparr>)"
    by (simp add: Expression_result_def)
  from METASSERT_failed [OF capture_eq this]
  show "METASSERT ''a == b'' 41 ''=='' 18467 ''main.cpp'' 6 w =
     Inr (w\<lparr>cout := cout w @ ''Failed: '' @ [dquote] @ ''a == b'' @ [dquote]
            @ '' (41 == 18467), in file main.cpp line 6'' @ [newline],
          op_calls := Suc (op_calls w)\<rparr>)"
    by (simp add: show_int_41 show_int_18467 show_unsigned_6)
next
  have "Expression_result \<lparr>m_lhs = 3, m_rhs = 2, m_op = LessThan\<rparr> w
          = Inr (BoolVal False, w\<lparr>op_calls := Suc (op_calls w)\<rparr>)"
    by (simp add: Expression_result_def)
  from METASSERT_failed [OF capture_less this]
  show "METASSERT ''a < b'' 3 ''<'' 2 file line w =
     Inr (w\<lparr>cout := cout w @ ''Failed: '' @ [dquote] @ ''a < b'' @ [dquote]
            @ '' (3 < 2), in file '' @ file @ '' line '' @ show_unsigned line @ [newline],
          op_calls := Suc (op_calls w)\<rparr>)"
    by (simp add: show_int_3 show_int_2)
qed

text \<open>
  C2. When the captured expression of a supported operator evaluates to true, METASSERT
  writes nothing: the statement completes, standard output is what it was, and so is
  the rest of the program's state.
\<close>

theorem passed_assertion_silent:
  assumes "capture a tok b = Some e"
    and "Expression_result e w = Inr (v, w')"
    and "to_bool v"
  shows "METASSERT text a tok b file line w = Inr w'
           \<and> cout w' = cout w \<and> world.more w' = world.more w"
  using METASSERT_passed [OF assms] assms(2) by (simp add: Expression_result_Inr)

theorem passed_assertion_silent_witness:
  "capture 3 ''>='' 2 = Some \<lparr>m_lhs = 3, m_rhs = 2, m_op = GreaterOrEqual\<rparr>
   \<and> Expression_result \<lparr>m_lhs = 3, m_rhs = 2, m_op = GreaterOrEqual\<rparr> \<lparr>cout = [], op_calls = 0\<rparr>
       = Inr (BoolVal True, \<lparr>cout = [], op_calls = 1\<rparr>)
   \<and> to_bool (BoolVal True)
   \<and> (METASSERT ''a >= b'' 3 ''>='' 2 ''main.cpp'' 6 \<lparr>cout = [], op_calls = 0\<rparr>
         = Inr \<lparr>cout = [], op_calls = 1\<rparr>
       \<and> cout \<lparr>cout = [], op_calls = 1\<rparr> = cout \<lparr>cout = [], op_calls = 0\<rparr>
       \<and> world.more \<lparr>cout = [], op_calls = 1\<rparr> = world.more \<lparr>cout = [], op_calls = 0\<rparr>)"
proof -
  have h: "to_bool (BoolVal True)"
    by simp
  show ?thesis
    by (intro conjI capture_greater_eq result_greater_eq h
        passed_assertion_silent [OF capture_greater_eq result_greater_eq h])
qed

text \<open>
  C4. For each of the ten supported operators and every two operands, the truth value
  that the capture mechanism produces (the builder chain, the conversion of the
  expression to its result type, the conversion of that to \<open>bool\<close>) is the truth value of
  the operator applied directly, and where the direct application is undefined so is
  the captured one.
\<close>

theorem capture_truth_direct:
  assumes "tok \<in> set supported"
  shows "\<exists>e r. capture a tok b = Some e \<and> direct_apply tok a b = Some r
           \<and> map_sum id (to_bool \<circ> fst) (Expression_result e w) = map_sum id to_bool r"
proof -
  from assms obtain name where n: "map_of operators tok = Some name"
    by (auto dest: supported_operators)
  then have c: "capture a tok b = Some \<lparr>m_lhs = a, m_rhs = b, m_op = name\<rparr>"
    by (simp add: capture_Some)
  have "map_sum id (to_bool \<circ> fst) (Expression_result \<lparr>m_lhs = a, m_rhs = b, m_op = name\<rparr> w)
          = map_sum id to_bool (functor_call name a b)"
    by (cases "functor_call name a b") (simp_all add: Expression_result_def)
  with c functor_call_direct [OF n] show ?thesis
    by blast
qed

theorem capture_truth_direct_witness:
  "''<'' \<in> set supported
   \<and> (\<exists>e r. capture 3 ''<'' 2 = Some e \<and> direct_apply ''<'' 3 2 = Some r
           \<and> map_sum id (to_bool \<circ> fst) (Expression_result e \<lparr>cout = [], op_calls = 0\<rparr>)
               = map_sum id to_bool r)"
proof -
  have h: "''<'' \<in> set supported"
    by (simp add: supported_def)
  show ?thesis
    by (intro conjI h capture_truth_direct [OF h])
qed

text \<open>
  C5. For each of the ten supported operators, the operator text that the captured
  expression renders is the operator token of the source expression: the functor
  inserts the token, and the expression is rendered as the left value, a space, the
  token, a space and the right value.
\<close>

theorem rendered_operator_is_token:
  assumes "tok \<in> set supported"
  shows "\<exists>e. capture a tok b = Some e \<and> functor_write os (m_op e) = os @ tok
           \<and> Expression_write os e = os @ show_int a @ '' '' @ tok @ '' '' @ show_int b"
proof -
  from assms obtain name where n: "map_of operators tok = Some name"
    by (auto dest: supported_operators)
  then have c: "capture a tok b = Some \<lparr>m_lhs = a, m_rhs = b, m_op = name\<rparr>"
    by (simp add: capture_Some)
  from n have "functor_write os (m_op \<lparr>m_lhs = a, m_rhs = b, m_op = name\<rparr>) = os @ tok"
    by (simp add: operators_token)
  with c capture_write [OF c] show ?thesis
    by blast
qed

theorem rendered_operator_is_token_witness:
  "''!='' \<in> set supported
   \<and> (\<exists>e. capture 5 ''!='' 5 = Some e \<and> functor_write ''5 '' (m_op e) = ''5 '' @ ''!=''
           \<and> Expression_write ''5 '' e = ''5 '' @ show_int 5 @ '' '' @ ''!='' @ '' '' @ show_int 5)"
proof -
  have h: "''!='' \<in> set supported"
    by (simp add: supported_def)
  show ?thesis
    by (intro conjI h rendered_operator_is_token [OF h])
qed

text \<open>
  C9, as stated: for every two \<open>int\<close> operands with a nonzero right operand the captured
  Divide expression yields the quotient. It fails for the least \<open>int\<close> divided by \<open>-1\<close>:
  the right operand is not zero, and the quotient is not an \<open>int\<close>, so that the division
  is undefined.
\<close>

theorem divide_nonzero_counterexample:
  "(- 1 :: cint) \<noteq> 0
   \<and> capture (- 2147483648) ''/'' (- 1) = Some \<lparr>m_lhs = - 2147483648, m_rhs = - 1, m_op = Divide\<rparr>
   \<and> Expression_result \<lparr>m_lhs = - 2147483648, m_rhs = - 1, m_op = Divide\<rparr> \<lparr>cout = [], op_calls = 0\<rparr>
       = Inl SignedOverflow"
proof (intro conjI)
  show "(- 1 :: cint) \<noteq> 0"
    by simp
  show "capture (- 2147483648) ''/'' (- 1) = Some \<lparr>m_lhs = - 2147483648, m_rhs = - 1, m_op = Divide\<rparr>"
    by (simp add: capture_Some operators_def)
  have "int_div (- 2147483648) (- 1) = Inl SignedOverflow"
    by (simp add: int_div_def int_result_def c_quotient_def INT_MIN_def INT_MAX_def)
  then show "Expression_result \<lparr>m_lhs = - 2147483648, m_rhs = - 1, m_op = Divide\<rparr> \<lparr>cout = [], op_calls = 0\<rparr>
       = Inl SignedOverflow"
    by (simp add: Expression_result_def)
qed

text \<open>
  C9, amended: the Divide functor applies \<open>/\<close> with no guard. For every two \<open>int\<close>
  operands \<open>a\<close> and \<open>b\<close> with \<open>b\<close> nonzero, and not the least \<open>int\<close> divided by \<open>-1\<close>, the
  captured Divide expression yields the quotient of \<open>a\<close> by \<open>b\<close> with the fraction
  discarded, after one call of the functor, and the division-by-zero branch is not
  taken. With a zero right operand the division is undefined.
\<close>

theorem divide_defined:
  assumes "b \<noteq> 0"
    and "\<not> (sint a = INT_MIN \<and> sint b = - 1)"
  shows "\<exists>e q. capture a ''/'' b = Some e
           \<and> Expression_result e w = Inr (IntVal q, w\<lparr>op_calls := Suc (op_calls w)\<rparr>)
           \<and> sint q = c_quotient (sint a) (sint b)
           \<and> Expression_result e w \<noteq> Inl DivideByZero
           \<and> Expression_result \<lparr>m_lhs = a, m_rhs = 0, m_op = Divide\<rparr> w = Inl DivideByZero"
proof -
  have z: "Expression_result \<lparr>m_lhs = a, m_rhs = 0, m_op = Divide\<rparr> w = Inl DivideByZero"
    by (simp add: Expression_result_def int_div_def)
  have c: "capture a ''/'' b = Some \<lparr>m_lhs = a, m_rhs = b, m_op = Divide\<rparr>"
    by (simp add: capture_Some operators_def)
  have r: "Expression_result \<lparr>m_lhs = a, m_rhs = b, m_op = Divide\<rparr> w
      = Inr (IntVal (word_of_int (c_quotient (sint a) (sint b))), w\<lparr>op_calls := Suc (op_calls w)\<rparr>)"
    by (simp add: Expression_result_def int_div_defined(1) [OF assms])
  then have nd: "Expression_result \<lparr>m_lhs = a, m_rhs = b, m_op = Divide\<rparr> w \<noteq> Inl DivideByZero"
    by simp
  from c r nd z int_div_defined(2) [OF assms] show ?thesis
    by blast
qed

theorem divide_defined_witness:
  "(2 :: cint) \<noteq> 0
   \<and> \<not> (sint (- 7 :: cint) = INT_MIN \<and> sint (2 :: cint) = - 1)
   \<and> (\<exists>e q. capture (- 7) ''/'' 2 = Some e
           \<and> Expression_result e \<lparr>cout = [], op_calls = 0\<rparr>
               = Inr (IntVal q, \<lparr>cout = [], op_calls = 0\<rparr>\<lparr>op_calls := Suc (op_calls \<lparr>cout = [], op_calls = 0\<rparr>)\<rparr>)
           \<and> sint q = c_quotient (sint (- 7 :: cint)) (sint (2 :: cint))
           \<and> Expression_result e \<lparr>cout = [], op_calls = 0\<rparr> \<noteq> Inl DivideByZero
           \<and> Expression_result \<lparr>m_lhs = - 7, m_rhs = 0, m_op = Divide\<rparr> \<lparr>cout = [], op_calls = 0\<rparr>
               = Inl DivideByZero)"
proof -
  have h1: "(2 :: cint) \<noteq> 0"
    by simp
  have h2: "\<not> (sint (- 7 :: cint) = INT_MIN \<and> sint (2 :: cint) = - 1)"
    by simp
  show ?thesis
    by (intro conjI h1 h2 divide_defined [OF h1 h2])
qed

text \<open>
  C3, as stated: every failing assertion writes the line with the line number of the
  assertion. It fails when the program has put \<open>std::cout\<close> into hexadecimal base:
  \<open>AssertFail\<close> inserts the line number into \<open>std::cout\<close> as it finds it, and the
  assertion of line 26 writes \<open>line 1a\<close>, which is not the numeral of 26.
\<close>

theorem format_hex_counterexample:
  "METASSERT_t int_operands ''a == b'' 1 ''=='' 2 ''main.cpp'' 26
     \<lparr>std_cout = \<lparr>os_chars = [], os_good = True, os_base = Hex, os_width = 0,
                   os_fill = CHR '' '', os_punct = classic\<rparr>,
      global_punct = classic, user = ()\<rparr>
   = Inr \<lparr>std_cout = \<lparr>os_chars = ''Failed: '' @ [dquote] @ ''a == b'' @ [dquote]
                           @ '' (1 == 2), in file main.cpp line 1a'' @ [newline],
                         os_good = True, os_base = Hex, os_width = 0,
                         os_fill = CHR '' '', os_punct = classic\<rparr>,
          global_punct = classic, user = ()\<rparr>
   \<and> \<not> decimal_numeral ''1a'' 26"
proof
  show "\<not> decimal_numeral ''1a'' 26"
    by (simp add: decimal_numeral_def)
  show "METASSERT_t int_operands ''a == b'' 1 ''=='' 2 ''main.cpp'' 26
     \<lparr>std_cout = \<lparr>os_chars = [], os_good = True, os_base = Hex, os_width = 0,
                   os_fill = CHR '' '', os_punct = classic\<rparr>,
      global_punct = classic, user = ()\<rparr>
   = Inr \<lparr>std_cout = \<lparr>os_chars = ''Failed: '' @ [dquote] @ ''a == b'' @ [dquote]
                           @ '' (1 == 2), in file main.cpp line 1a'' @ [newline],
                         os_good = True, os_base = Hex, os_width = 0,
                         os_fill = CHR '' '', os_punct = classic\<rparr>,
          global_punct = classic, user = ()\<rparr>"
    using METASSERT_t_failed [OF capture_t_eq_small result_t_eq_small,
        of "\<lparr>std_cout = \<lparr>os_chars = [], os_good = True, os_base = Hex, os_width = 0,
                   os_fill = CHR '' '', os_punct = classic\<rparr>,
             global_punct = classic, user = ()\<rparr>" "''a == b''" "''main.cpp''" 26]
    by (simp add: int_operands_fields render_int_classic show_int_1 show_int_2 hex_26
        classic_def)
qed

text \<open>
  C3, amended: for operands of type \<open>int\<close>, when \<open>std::cout\<close> is good, in decimal base,
  with no field width and no digit grouping, and the global locale groups no digits, a
  failing assertion appends to standard output exactly
  \<open>Failed: "<expr source text>" (<lhs> <op> <rhs>), in file <file> line <line>\<close> and a
  newline: the source text is the spelling of the macro argument, \<open><lhs>\<close> and \<open><rhs>\<close>
  are the decimal numerals of the operand values, \<open><op>\<close> is the operator token of the
  argument, and \<open><line>\<close> is the decimal numeral of the line number. Nothing else of the
  program's state changes.
\<close>

theorem failed_assertion_format:
  assumes "capture_t a tok b = Some e"
    and "Expression_result_t int_operands e (user p) = Inr (v, s')"
    and "\<not> to_bool v"
    and "os_good (std_cout p)"
    and "os_base (std_cout p) = Dec"
    and "os_width (std_cout p) = 0"
    and "os_punct (std_cout p) = classic"
    and "global_punct p = classic"
  shows "\<exists>lhs rhs ln.
      METASSERT_t int_operands text a tok b file line p =
        Inr (p\<lparr>std_cout := (std_cout p)\<lparr>os_chars := os_chars (std_cout p) @ ''Failed: ''
               @ [dquote] @ text @ [dquote] @ '' ('' @ lhs @ '' '' @ tok @ '' '' @ rhs
               @ ''), in file '' @ file @ '' line '' @ ln @ [newline]\<rparr>\<rparr>)
      \<and> int_numeral lhs (sint a) \<and> int_numeral rhs (sint b)
      \<and> decimal_numeral ln (unat line)"
proof -
  from assms(2) have s': "s' = user p"
    by (simp add: int_operands_result)
  from assms(3) have f: "\<not> to_truth int_operands v"
    by (simp add: int_operands_fields)
  have "METASSERT_t int_operands text a tok b file line p =
        Inr (p\<lparr>std_cout := (std_cout p)\<lparr>os_chars := os_chars (std_cout p) @ ''Failed: ''
               @ [dquote] @ text @ [dquote] @ '' ('' @ show_int a @ '' '' @ tok @ '' ''
               @ show_int b @ ''), in file '' @ file @ '' line '' @ decimal (unat line)
               @ [newline]\<rparr>\<rparr>)"
    using METASSERT_t_failed [OF assms(1,2) f assms(4,6), of "text" "file" "line"] assms(5,7,8) s'
    by (simp add: int_operands_fields render_int_classic unsigned_text_def classic_def)
  with show_int_is_numeral [of a] show_int_is_numeral [of b] decimal_is_numeral [of "unat line"]
  show ?thesis
    by blast
qed

theorem failed_assertion_format_witness:
  "capture_t (41 :: cint) ''=='' (18467 :: cint)
     = Some \<lparr>m_lhs_t = 41, m_rhs_t = 18467, m_op_t = Equal\<rparr>
   \<and> Expression_result_t int_operands \<lparr>m_lhs_t = 41, m_rhs_t = 18467, m_op_t = Equal\<rparr>
         (user \<lparr>std_cout = stringstream classic, global_punct = classic, user = ()\<rparr>)
       = Inr (BoolVal False, ())
   \<and> \<not> to_bool (BoolVal False)
   \<and> os_good (std_cout \<lparr>std_cout = stringstream classic, global_punct = classic, user = ()\<rparr>)
   \<and> os_base (std_cout \<lparr>std_cout = stringstream classic, global_punct = classic, user = ()\<rparr>) = Dec
   \<and> os_width (std_cout \<lparr>std_cout = stringstream classic, global_punct = classic, user = ()\<rparr>) = 0
   \<and> os_punct (std_cout \<lparr>std_cout = stringstream classic, global_punct = classic, user = ()\<rparr>) = classic
   \<and> global_punct \<lparr>std_cout = stringstream classic, global_punct = classic, user = ()\<rparr> = classic
   \<and> (\<exists>lhs rhs ln.
      METASSERT_t int_operands ''a == b'' 41 ''=='' 18467 ''main.cpp'' 6
          \<lparr>std_cout = stringstream classic, global_punct = classic, user = ()\<rparr> =
        Inr (\<lparr>std_cout = stringstream classic, global_punct = classic, user = ()\<rparr>
              \<lparr>std_cout := (std_cout \<lparr>std_cout = stringstream classic, global_punct = classic, user = ()\<rparr>)
                 \<lparr>os_chars := os_chars (std_cout \<lparr>std_cout = stringstream classic, global_punct = classic, user = ()\<rparr>)
                    @ ''Failed: '' @ [dquote] @ ''a == b'' @ [dquote] @ '' ('' @ lhs @ '' '' @ ''==''
                    @ '' '' @ rhs @ ''), in file '' @ ''main.cpp'' @ '' line '' @ ln @ [newline]\<rparr>\<rparr>)
      \<and> int_numeral lhs (sint (41 :: cint)) \<and> int_numeral rhs (sint (18467 :: cint))
      \<and> decimal_numeral ln (unat (6 :: cunsigned)))
   \<and> os_chars (std_cout (projr (METASSERT_t int_operands ''a == b'' 41 ''=='' 18467 ''main.cpp'' 6
          \<lparr>std_cout = stringstream classic, global_punct = classic, user = ()\<rparr>)))
       = ''Failed: '' @ [dquote] @ ''a == b'' @ [dquote]
           @ '' (41 == 18467), in file main.cpp line 6'' @ [newline]"
proof -
  let ?p = "\<lparr>std_cout = stringstream classic, global_punct = classic, user = ()\<rparr>"
  have r: "Expression_result_t int_operands \<lparr>m_lhs_t = 41, m_rhs_t = 18467, m_op_t = Equal\<rparr>
         (user ?p) = Inr (BoolVal False, ())"
    by (simp add: int_operands_result)
  have h: "\<not> to_bool (BoolVal False)"
    by simp
  have h': "\<not> to_truth int_operands (BoolVal False)"
    by (simp add: int_operands_fields)
  have g: "os_good (std_cout ?p)"
    by (simp add: stringstream_def)
  have b: "os_base (std_cout ?p) = Dec"
    by (simp add: stringstream_def)
  have w: "os_width (std_cout ?p) = 0"
    by (simp add: stringstream_def)
  have c: "os_punct (std_cout ?p) = classic"
    by (simp add: stringstream_def)
  have l: "global_punct ?p = classic"
    by simp
  have x: "os_chars (std_cout (projr (METASSERT_t int_operands ''a == b'' 41 ''=='' 18467
             ''main.cpp'' 6 ?p)))
       = ''Failed: '' @ [dquote] @ ''a == b'' @ [dquote]
           @ '' (41 == 18467), in file main.cpp line 6'' @ [newline]"
    using METASSERT_t_failed [OF capture_t_eq r h' g w, of "''a == b''" "''main.cpp''" 6]
    by (simp add: int_operands_fields render_int_classic show_int_41 show_int_18467
        unsigned_text_def decimal_6 classic_def
        stringstream_def)
  show ?thesis
    by (intro conjI capture_t_eq r h g b w c l x
        failed_assertion_format [OF capture_t_eq r h g b w c l])
qed

text \<open>
  C1, as stated: for every two values, a failing assertion writes exactly one line. It
  fails for a \<open>char\<close> operand that is the newline character, which the insertion of
  line 82 writes as it is: the output has two newline characters. It fails as well
  for a file name that holds a newline, and when \<open>std::cout\<close> is in a failed state,
  where nothing is written.
\<close>

theorem one_line_counterexample:
  "METASSERT_t char_operands ''a == b'' (CHR 0x0A) ''=='' (CHR ''x'') ''main.cpp'' 6
     \<lparr>std_cout = stringstream classic, global_punct = classic, user = ()\<rparr>
   = Inr \<lparr>std_cout = (stringstream classic)\<lparr>os_chars := ''Failed: '' @ [dquote] @ ''a == b''
            @ [dquote] @ '' ('' @ [newline] @ '' == x), in file main.cpp line 6'' @ [newline]\<rparr>,
          global_punct = classic, user = ()\<rparr>
   \<and> count_list (''Failed: '' @ [dquote] @ ''a == b''
            @ [dquote] @ '' ('' @ [newline] @ '' == x), in file main.cpp line 6'' @ [newline])
         newline = 2
   \<and> METASSERT_t int_operands ''a == b'' 1 ''=='' 2 (''main'' @ [newline] @ ''.cpp'') 6
     \<lparr>std_cout = stringstream classic, global_punct = classic, user = ()\<rparr>
   = Inr \<lparr>std_cout = (stringstream classic)\<lparr>os_chars := ''Failed: '' @ [dquote] @ ''a == b''
            @ [dquote] @ '' (1 == 2), in file main'' @ [newline] @ ''.cpp line 6'' @ [newline]\<rparr>,
          global_punct = classic, user = ()\<rparr>
   \<and> count_list (''Failed: '' @ [dquote] @ ''a == b''
            @ [dquote] @ '' (1 == 2), in file main'' @ [newline] @ ''.cpp line 6'' @ [newline])
         newline = 2
   \<and> METASSERT_t int_operands ''a == b'' 1 ''=='' 2 ''main.cpp'' 6
     \<lparr>std_cout = (stringstream classic)\<lparr>os_good := False\<rparr>, global_punct = classic, user = ()\<rparr>
   = Inr \<lparr>std_cout = (stringstream classic)\<lparr>os_good := False\<rparr>, global_punct = classic,
          user = ()\<rparr>"
proof (intro conjI)
  have c: "capture_t (CHR 0x0A) ''=='' (CHR ''x'')
             = Some \<lparr>m_lhs_t = CHR 0x0A, m_rhs_t = CHR ''x'', m_op_t = Equal\<rparr>"
    by (simp add: capture_t_Some operators_def)
  have r: "Expression_result_t char_operands
             \<lparr>m_lhs_t = CHR 0x0A, m_rhs_t = CHR ''x'', m_op_t = Equal\<rparr>
             (user \<lparr>std_cout = stringstream classic, global_punct = classic, user = ()\<rparr>)
           = Inr (BoolVal False, ())"
    by (simp add: Expression_result_t_def char_operands_def promote_def)
  have t: "\<not> to_truth char_operands (BoolVal False)"
    by (simp add: char_operands_def)
  show "METASSERT_t char_operands ''a == b'' (CHR 0x0A) ''=='' (CHR ''x'') ''main.cpp'' 6
     \<lparr>std_cout = stringstream classic, global_punct = classic, user = ()\<rparr>
   = Inr \<lparr>std_cout = (stringstream classic)\<lparr>os_chars := ''Failed: '' @ [dquote] @ ''a == b''
            @ [dquote] @ '' ('' @ [newline] @ '' == x), in file main.cpp line 6'' @ [newline]\<rparr>,
          global_punct = classic, user = ()\<rparr>"
    using METASSERT_t_failed [OF c r t, of "''a == b''" "''main.cpp''" 6]
    by (simp add: stringstream_def char_operands_def unsigned_text_def decimal_6 classic_def
        newline_def)
  have t': "\<not> to_truth int_operands (BoolVal False)"
    by (simp add: int_operands_fields)
  show "METASSERT_t int_operands ''a == b'' 1 ''=='' 2 (''main'' @ [newline] @ ''.cpp'') 6
     \<lparr>std_cout = stringstream classic, global_punct = classic, user = ()\<rparr>
   = Inr \<lparr>std_cout = (stringstream classic)\<lparr>os_chars := ''Failed: '' @ [dquote] @ ''a == b''
            @ [dquote] @ '' (1 == 2), in file main'' @ [newline] @ ''.cpp line 6'' @ [newline]\<rparr>,
          global_punct = classic, user = ()\<rparr>"
    using METASSERT_t_failed [OF capture_t_eq_small result_t_eq_small t',
        of "\<lparr>std_cout = stringstream classic, global_punct = classic, user = ()\<rparr>"
           "''a == b''" "''main'' @ [newline] @ ''.cpp''" 6]
    by (simp add: stringstream_def int_operands_fields render_int_classic show_int_1 show_int_2
        unsigned_text_def decimal_6 classic_def)
  show "METASSERT_t int_operands ''a == b'' 1 ''=='' 2 ''main.cpp'' 6
     \<lparr>std_cout = (stringstream classic)\<lparr>os_good := False\<rparr>, global_punct = classic, user = ()\<rparr>
   = Inr \<lparr>std_cout = (stringstream classic)\<lparr>os_good := False\<rparr>, global_punct = classic,
          user = ()\<rparr>"
    by (simp add: METASSERT_t_def capture_t_eq_small result_t_eq_small int_operands_fields
        AssertFail_t_def insert_chars_def insert_unsigned_def insert_endl_def)
qed (simp_all add: newline_def dquote_def)

text \<open>
  C1, amended: for every two values whose stream insertion writes no newline and every
  supported operator, if the captured expression evaluates to false, and the spelling
  of the macro argument and the file name hold no newline, and \<open>std::cout\<close> is good, in
  decimal base, with no field width and no digit grouping, then METASSERT appends
  exactly one line to standard output: the appended text holds one newline character,
  its last one, it contains what the insertion of each operand value writes, and it
  ends with the decimal numeral of the line number.
\<close>

theorem failed_assertion_one_line:
  assumes "capture_t a tok b = Some e"
    and "Expression_result_t T e (user p) = Inr (v, s')"
    and "\<not> to_truth T v"
    and "newline \<notin> set text"
    and "newline \<notin> set file"
    and "newline \<notin> set (render_lhs T (global_punct p) a)"
    and "newline \<notin> set (render_rhs T (global_punct p) b)"
    and "os_good (std_cout p)"
    and "os_base (std_cout p) = Dec"
    and "os_width (std_cout p) = 0"
    and "os_punct (std_cout p) = classic"
  shows "\<exists>out ln.
      METASSERT_t T text a tok b file line p =
        Inr (p\<lparr>std_cout := (std_cout p)\<lparr>os_chars := os_chars (std_cout p) @ out\<rparr>, user := s'\<rparr>)
      \<and> count_list out newline = 1 \<and> last out = newline
      \<and> sublist (render_lhs T (global_punct p) a) out
      \<and> sublist (render_rhs T (global_punct p) b) out
      \<and> decimal_numeral ln (unat line) \<and> suffix ('' line '' @ ln @ [newline]) out"
proof -
  define ra where "ra = render_lhs T (global_punct p) a"
  define rb where "rb = render_rhs T (global_punct p) b"
  define ln where "ln = decimal (unat line)"
  define out where "out = ''Failed: '' @ [dquote] @ text @ [dquote] @ '' ('' @ ra
        @ '' '' @ tok @ '' '' @ rb @ ''), in file '' @ file @ '' line '' @ ln @ [newline]"
  have run: "METASSERT_t T text a tok b file line p =
        Inr (p\<lparr>std_cout := (std_cout p)\<lparr>os_chars := os_chars (std_cout p) @ out\<rparr>, user := s'\<rparr>)"
    using METASSERT_t_failed [OF assms(1-3,8,10), of "text" "file" "line"] assms(9,11)
    by (simp add: out_def ra_def rb_def ln_def unsigned_text_def classic_def)
  from assms(1) have "newline \<notin> set tok"
    by (auto simp: capture_t_Some operators_newline)
  then have one: "count_list out newline = 1"
    using assms(4-7) newline_decimal [of "unat line"]
    by (simp add: out_def ra_def rb_def ln_def newline_def dquote_def)
  have last: "last out = newline"
    by (simp add: out_def)
  have "out = (''Failed: '' @ [dquote] @ text @ [dquote] @ '' ('') @ ra
        @ ('' '' @ tok @ '' '' @ rb @ ''), in file '' @ file @ '' line '' @ ln @ [newline])"
    by (simp add: out_def)
  then have lhs: "sublist ra out"
    unfolding sublist_def by blast
  have "out = (''Failed: '' @ [dquote] @ text @ [dquote] @ '' ('' @ ra @ '' '' @ tok @ '' '')
        @ rb @ (''), in file '' @ file @ '' line '' @ ln @ [newline])"
    by (simp add: out_def)
  then have rhs: "sublist rb out"
    unfolding sublist_def by blast
  have "out = (''Failed: '' @ [dquote] @ text @ [dquote] @ '' ('' @ ra @ '' '' @ tok @ '' ''
        @ rb @ ''), in file '' @ file) @ ('' line '' @ ln @ [newline])"
    by (simp add: out_def)
  then have sfx: "suffix ('' line '' @ ln @ [newline]) out"
    unfolding suffix_def by blast
  have num: "decimal_numeral ln (unat line)"
    by (simp add: ln_def decimal_is_numeral)
  from run one last lhs rhs num sfx show ?thesis
    unfolding ra_def rb_def by blast
qed

theorem failed_assertion_one_line_witness:
  "capture_t (41 :: cint) ''=='' (18467 :: cint)
     = Some \<lparr>m_lhs_t = 41, m_rhs_t = 18467, m_op_t = Equal\<rparr>
   \<and> Expression_result_t int_operands \<lparr>m_lhs_t = 41, m_rhs_t = 18467, m_op_t = Equal\<rparr>
         (user \<lparr>std_cout = stringstream classic, global_punct = classic, user = ()\<rparr>)
       = Inr (BoolVal False, ())
   \<and> \<not> to_truth (int_operands :: (cint, cint, val, unit) operand_types) (BoolVal False)
   \<and> newline \<notin> set ''a == b''
   \<and> newline \<notin> set ''main.cpp''
   \<and> newline \<notin> set (render_lhs (int_operands :: (cint, cint, val, unit) operand_types)
         (global_punct \<lparr>std_cout = stringstream classic, global_punct = classic, user = ()\<rparr>) (41 :: cint))
   \<and> newline \<notin> set (render_rhs (int_operands :: (cint, cint, val, unit) operand_types)
         (global_punct \<lparr>std_cout = stringstream classic, global_punct = classic, user = ()\<rparr>) (18467 :: cint))
   \<and> os_good (std_cout \<lparr>std_cout = stringstream classic, global_punct = classic, user = ()\<rparr>)
   \<and> os_base (std_cout \<lparr>std_cout = stringstream classic, global_punct = classic, user = ()\<rparr>) = Dec
   \<and> os_width (std_cout \<lparr>std_cout = stringstream classic, global_punct = classic, user = ()\<rparr>) = 0
   \<and> os_punct (std_cout \<lparr>std_cout = stringstream classic, global_punct = classic, user = ()\<rparr>) = classic
   \<and> (\<exists>out ln.
      METASSERT_t int_operands ''a == b'' 41 ''=='' 18467 ''main.cpp'' 6
          \<lparr>std_cout = stringstream classic, global_punct = classic, user = ()\<rparr> =
        Inr (\<lparr>std_cout = stringstream classic, global_punct = classic, user = ()\<rparr>
              \<lparr>std_cout := (std_cout \<lparr>std_cout = stringstream classic, global_punct = classic, user = ()\<rparr>)
                 \<lparr>os_chars := os_chars (std_cout \<lparr>std_cout = stringstream classic, global_punct = classic, user = ()\<rparr>) @ out\<rparr>,
               user := ()\<rparr>)
      \<and> count_list out newline = 1 \<and> last out = newline
      \<and> sublist (render_lhs (int_operands :: (cint, cint, val, unit) operand_types)
            (global_punct \<lparr>std_cout = stringstream classic, global_punct = classic, user = ()\<rparr>) (41 :: cint)) out
      \<and> sublist (render_rhs (int_operands :: (cint, cint, val, unit) operand_types)
            (global_punct \<lparr>std_cout = stringstream classic, global_punct = classic, user = ()\<rparr>) (18467 :: cint)) out
      \<and> decimal_numeral ln (unat (6 :: cunsigned)) \<and> suffix ('' line '' @ ln @ [newline]) out)
   \<and> render_lhs (int_operands :: (cint, cint, val, unit) operand_types) classic (41 :: cint) = ''41''
   \<and> render_rhs (int_operands :: (cint, cint, val, unit) operand_types) classic (18467 :: cint) = ''18467''"
proof -
  let ?p = "\<lparr>std_cout = stringstream classic, global_punct = classic, user = ()\<rparr>"
  have r: "Expression_result_t int_operands \<lparr>m_lhs_t = 41, m_rhs_t = 18467, m_op_t = Equal\<rparr>
         (user ?p) = Inr (BoolVal False, ())"
    by (simp add: int_operands_result)
  have h: "\<not> to_truth (int_operands :: (cint, cint, val, unit) operand_types) (BoolVal False)"
    by (simp add: int_operands_fields)
  have t: "newline \<notin> set ''a == b''"
    by (simp add: newline_def)
  have f: "newline \<notin> set ''main.cpp''"
    by (simp add: newline_def)
  have x: "render_lhs (int_operands :: (cint, cint, val, unit) operand_types) classic (41 :: cint) = ''41''"
    by (simp add: int_operands_fields render_int_classic show_int_41)
  have y: "render_rhs (int_operands :: (cint, cint, val, unit) operand_types) classic (18467 :: cint) = ''18467''"
    by (simp add: int_operands_fields render_int_classic show_int_18467)
  have na: "newline \<notin> set (render_lhs (int_operands :: (cint, cint, val, unit) operand_types) (global_punct ?p) (41 :: cint))"
    by (simp add: x newline_def)
  have nb: "newline \<notin> set (render_rhs (int_operands :: (cint, cint, val, unit) operand_types) (global_punct ?p) (18467 :: cint))"
    by (simp add: y newline_def)
  have g: "os_good (std_cout ?p)"
    by (simp add: stringstream_def)
  have b: "os_base (std_cout ?p) = Dec"
    by (simp add: stringstream_def)
  have w: "os_width (std_cout ?p) = 0"
    by (simp add: stringstream_def)
  have c: "os_punct (std_cout ?p) = classic"
    by (simp add: stringstream_def)
  show ?thesis
    by (intro conjI capture_t_eq r h t f na nb g b w c x y
        failed_assertion_one_line [OF capture_t_eq r h t f na nb g b w c])
qed




text \<open>
  C8. In every run of the statement that completes, on the passing path and on the
  failing path alike, the operator of the captured expression is applied exactly once:
  the state that the operators of the operand types work on is, after the statement,
  the state that one application of the operator of the source token to the two
  operands leaves. Rendering and printing the message apply no operator.
\<close>

theorem operation_executed_once:
  assumes "METASSERT_t T text a tok b file line p = Inr p'"
  shows "\<exists>name v. map_of operators tok = Some name
           \<and> apply_op T name a b (user p) = Inr (v, user p')"
  using assms
  by (auto simp: METASSERT_t_def capture_t_Some Expression_result_t_def Let_def
      split: option.splits sum.splits if_splits)

theorem operation_executed_once_witness:
  "METASSERT_t counting_operands ''a == b'' 3 ''=='' 4 ''main.cpp'' 6
       \<lparr>std_cout = stringstream classic, global_punct = classic, user = 0\<rparr>
     = Inr \<lparr>std_cout = (stringstream classic)\<lparr>os_chars := ''Failed: '' @ [dquote] @ ''a == b''
              @ [dquote] @ '' (3 == 4), in file main.cpp line 6'' @ [newline]\<rparr>,
            global_punct = classic, user = 1\<rparr>
   \<and> (\<exists>name v. map_of operators ''=='' = Some name
         \<and> apply_op counting_operands name 3 4
              (user \<lparr>std_cout = stringstream classic, global_punct = classic, user = 0\<rparr>)
            = Inr (v, user \<lparr>std_cout = (stringstream classic)\<lparr>os_chars := ''Failed: ''
                @ [dquote] @ ''a == b'' @ [dquote]
                @ '' (3 == 4), in file main.cpp line 6'' @ [newline]\<rparr>,
              global_punct = classic, user = 1 :: nat\<rparr>))
   \<and> METASSERT_t counting_operands ''a < b'' 3 ''<'' 4 ''main.cpp'' 6
       \<lparr>std_cout = stringstream classic, global_punct = classic, user = 0\<rparr>
     = Inr \<lparr>std_cout = stringstream classic, global_punct = classic, user = 1\<rparr>"
proof -
  have c: "capture_t (3 :: nat) ''=='' (4 :: nat)
             = Some \<lparr>m_lhs_t = 3, m_rhs_t = 4, m_op_t = Equal\<rparr>"
    by (simp add: capture_t_Some operators_def)
  have r: "Expression_result_t counting_operands \<lparr>m_lhs_t = 3, m_rhs_t = 4, m_op_t = Equal\<rparr>
             (user \<lparr>std_cout = stringstream classic, global_punct = classic, user = 0\<rparr>)
           = Inr (False, 1)"
    by (simp add: Expression_result_t_def counting_operands_def)
  have t: "\<not> to_truth counting_operands False"
    by (simp add: counting_operands_def)
  have h: "METASSERT_t counting_operands ''a == b'' 3 ''=='' 4 ''main.cpp'' 6
       \<lparr>std_cout = stringstream classic, global_punct = classic, user = 0\<rparr>
     = Inr \<lparr>std_cout = (stringstream classic)\<lparr>os_chars := ''Failed: '' @ [dquote] @ ''a == b''
              @ [dquote] @ '' (3 == 4), in file main.cpp line 6'' @ [newline]\<rparr>,
            global_punct = classic, user = 1\<rparr>"
    using METASSERT_t_failed [OF c r t, of "''a == b''" "''main.cpp''" 6]
    by (simp add: stringstream_def counting_operands_def unsigned_text_def decimal.simps
        digit_def classic_def)
  have c5: "capture_t (3 :: nat) ''<'' (4 :: nat)
             = Some \<lparr>m_lhs_t = 3, m_rhs_t = 4, m_op_t = LessThan\<rparr>"
    by (simp add: capture_t_Some operators_def)
  have k: "METASSERT_t counting_operands ''a < b'' 3 ''<'' 4 ''main.cpp'' 6
       \<lparr>std_cout = stringstream classic, global_punct = classic, user = 0\<rparr>
     = Inr \<lparr>std_cout = stringstream classic, global_punct = classic, user = 1\<rparr>"
    by (simp add: METASSERT_t_def c5 Expression_result_t_def counting_operands_def)
  show ?thesis
    by (intro conjI h k operation_executed_once [OF h])
qed

end
